theory Spec2Isabelle
  imports Main "HOL-Library.AList"
begin

section \<open>Python values\<close>

text \<open>
  The constructor of \<^verbatim>\<open>Rectangle\<close> is dynamically typed: it can be called with
  any Python object. The values modelled are the ones the specification speaks of:
  integers (unbounded), booleans (a subclass of \<^verbatim>\<open>int\<close>), floating-point numbers,
  strings and \<^verbatim>\<open>None\<close>. A float is a dyadic number \<open>m * 2 ^ e\<close>, an infinity or a
  NaN; only its sign is ever looked at.
\<close>

datatype pyfloat = FFinite int int | FPosInf | FNegInf | FNaN

datatype pyval =
    PyInt int
  | PyBool bool
  | PyFloat pyfloat
  | PyStr string
  | PyNone

datatype error =
    TypeError string
  | ValueError string
  | AttributeError string

text \<open>A dictionary keeps its keys in insertion order: an association list.\<close>

type_synonym pydict = "(string \<times> pyval) list"

text \<open>
  An instance is its attribute dictionary (\<^verbatim>\<open>self.__dict__\<close>); a fresh object
  has no attribute.
\<close>

type_synonym pyobject = pydict

definition setattr :: "pyobject \<Rightarrow> string \<Rightarrow> pyval \<Rightarrow> pyobject" where
  "setattr obj name v = AList.update name v obj"

definition getattr :: "pyobject \<Rightarrow> string \<Rightarrow> error + pyval" where
  "getattr obj name =
     (case map_of obj name of
        None \<Rightarrow> Inl (AttributeError name)
      | Some v \<Rightarrow> Inr v)"

subsection \<open>The built-in operations the class uses\<close>

text \<open>\<^verbatim>\<open>isinstance(v, int)\<close>: true of integers and of booleans.\<close>

fun isinstance_int :: "pyval \<Rightarrow> bool" where
  "isinstance_int (PyInt i) = True"
| "isinstance_int (PyBool b) = True"
| "isinstance_int (PyFloat f) = False"
| "isinstance_int (PyStr s) = False"
| "isinstance_int PyNone = False"

text \<open>The integer an instance of \<^verbatim>\<open>int\<close> stands for: \<^verbatim>\<open>True\<close> is 1, \<^verbatim>\<open>False\<close> is 0.\<close>

fun int_value :: "pyval \<Rightarrow> int option" where
  "int_value (PyInt i) = Some i"
| "int_value (PyBool b) = Some (if b then 1 else 0)"
| "int_value (PyFloat f) = None"
| "int_value (PyStr s) = None"
| "int_value PyNone = None"

fun float_le_zero :: "pyfloat \<Rightarrow> bool" where
  "float_le_zero (FFinite m e) = (m \<le> 0)"
| "float_le_zero FPosInf = False"
| "float_le_zero FNegInf = True"
| "float_le_zero FNaN = False"

definition quoted :: "string \<Rightarrow> string" where
  "quoted s = CHR 0x27 # s @ [CHR 0x27]"

definition unorderable :: "string \<Rightarrow> error" where
  "unorderable ty =
     TypeError (quoted ''<='' @ '' not supported between instances of ''
                @ quoted ty @ '' and '' @ quoted ''int'')"

text \<open>\<^verbatim>\<open>v <= 0\<close>: a comparison of numbers, a \<^verbatim>\<open>TypeError\<close> on a string or \<^verbatim>\<open>None\<close>.\<close>

fun py_le_zero :: "pyval \<Rightarrow> error + bool" where
  "py_le_zero (PyInt i) = Inr (i \<le> 0)"
| "py_le_zero (PyBool b) = Inr (\<not> b)"
| "py_le_zero (PyFloat f) = Inr (float_le_zero f)"
| "py_le_zero (PyStr s) = Inl (unorderable ''str'')"
| "py_le_zero PyNone = Inl (unorderable ''NoneType'')"

subsection \<open>Formatting\<close>

definition digit_char :: "nat \<Rightarrow> char" where
  "digit_char d = char_of (48 + d)"

fun str_nat :: "nat \<Rightarrow> string" where
  "str_nat n = (if n < 10 then [digit_char n] else str_nat (n div 10) @ [digit_char (n mod 10)])"

text \<open>
  \<^verbatim>\<open>str\<close> of an integer. The interpreter converts, then refuses a result of more
  digits (the sign not counted) than its limit \<^verbatim>\<open>sys.get_int_max_str_digits()\<close>: 4300
  unless set otherwise, 0 for no limit. A result of at most 640 characters is never
  refused.
\<close>

definition digit_limit_error :: "nat \<Rightarrow> error" where
  "digit_limit_error max_str_digits =
     ValueError (''Exceeds the limit ('' @ str_nat max_str_digits
                 @ '' digits) for integer string conversion; ''
                 @ ''use sys.set_int_max_str_digits() to increase the limit'')"

definition str_int :: "nat \<Rightarrow> int \<Rightarrow> error + string" where
  "str_int max_str_digits i =
     (let digits = str_nat (nat \<bar>i\<bar>);
          strlen = length digits + (if i < 0 then 1 else 0)
      in if 640 < strlen \<and> 0 < max_str_digits \<and> max_str_digits < length digits
         then Inl (digit_limit_error max_str_digits)
         else Inr (if i < 0 then CHR ''-'' # digits else digits))"

text \<open>
  \<^verbatim>\<open>{v}\<close> in an f-string is \<^verbatim>\<open>format(v, '')\<close>, that is \<^verbatim>\<open>str(v)\<close>. The shortest
  round-tripping decimal of a float is the interpreter's work and not of this
  repository: it is the parameter \<open>float_str\<close>.
\<close>

fun py_format :: "nat \<Rightarrow> (pyfloat \<Rightarrow> string) \<Rightarrow> pyval \<Rightarrow> error + string" where
  "py_format max_str_digits float_str (PyInt i) = str_int max_str_digits i"
| "py_format max_str_digits float_str (PyBool b) = Inr (if b then ''True'' else ''False'')"
| "py_format max_str_digits float_str (PyFloat f) = Inr (float_str f)"
| "py_format max_str_digits float_str (PyStr s) = Inr s"
| "py_format max_str_digits float_str PyNone = Inr ''None''"

section \<open>The class Rectangle\<close>

subsection \<open>Construction\<close>

text \<open>
  \<^verbatim>\<open>__init__\<close> runs on the object under construction and either returns normally
  or raises; the result is the object as the method leaves it, with the exception
  raised if any.
\<close>

definition Rectangle_init :: "pyobject \<Rightarrow> pyval \<Rightarrow> pyval \<Rightarrow> pyobject \<times> error option" where
  "Rectangle_init self length' width' =
     (if \<not> isinstance_int length' \<or> \<not> isinstance_int width'
      then (self, Some (TypeError ''Length and width must be integers.''))
      else
        (case py_le_zero length' of
           Inl e \<Rightarrow> (self, Some e)
         | Inr neg_l \<Rightarrow>
             (if neg_l
              then (self, Some (ValueError ''Length and width must be positive integers.''))
              else
                (case py_le_zero width' of
                   Inl e \<Rightarrow> (self, Some e)
                 | Inr neg_w \<Rightarrow>
                     (if neg_w
                      then (self, Some (ValueError ''Length and width must be positive integers.''))
                      else (setattr (setattr self ''length'' length') ''width'' width', None))))))"

text \<open>
  The call \<^verbatim>\<open>Rectangle(length, width)\<close>: a fresh object is made, \<^verbatim>\<open>__init__\<close> runs
  on it, and the caller gets the object, or the exception and no object.
\<close>

definition Rectangle :: "pyval \<Rightarrow> pyval \<Rightarrow> error + pyobject" where
  "Rectangle length' width' =
     (case Rectangle_init [] length' width' of
        (self, None) \<Rightarrow> Inr self
      | (self, Some e) \<Rightarrow> Inl e)"

subsection \<open>Iteration\<close>

text \<open>
  \<^verbatim>\<open>__iter__\<close> is a generator function: calling it runs nothing and returns a new
  generator, which runs the body up to the next \<^verbatim>\<open>yield\<close> at every \<^verbatim>\<open>next\<close>. The
  generator is where its body stands; it reads the attributes of the instance when it
  gets there. A generator that raised or returned is closed.
\<close>

datatype generator = Created | AtYield1 | AtYield2 | Closed

datatype 'a outcome = Yielded 'a | StopIteration | Raised error

definition Rectangle_iter :: "pyobject \<Rightarrow> generator" where
  "Rectangle_iter self = Created"

fun gen_next :: "pyobject \<Rightarrow> generator \<Rightarrow> pyobject \<times> generator \<times> pydict outcome" where
  "gen_next self Created =
     (case getattr self ''length'' of
        Inl e \<Rightarrow> (self, Closed, Raised e)
      | Inr v \<Rightarrow> (self, AtYield1, Yielded [(''length'', v)]))"
| "gen_next self AtYield1 =
     (case getattr self ''width'' of
        Inl e \<Rightarrow> (self, Closed, Raised e)
      | Inr v \<Rightarrow> (self, AtYield2, Yielded [(''width'', v)]))"
| "gen_next self AtYield2 = (self, Closed, StopIteration)"
| "gen_next self Closed = (self, Closed, StopIteration)"

text \<open>What is left of the body from where the generator stands.\<close>

fun remaining :: "generator \<Rightarrow> nat" where
  "remaining Created = 3"
| "remaining AtYield1 = 2"
| "remaining AtYield2 = 1"
| "remaining Closed = 0"

text \<open>
  A whole traversal (\<^verbatim>\<open>for item in rect\<close>, \<^verbatim>\<open>list(rect)\<close>): \<^verbatim>\<open>next\<close> until the
  generator stops, collecting what it yields.
\<close>

function traverse :: "pyobject \<Rightarrow> generator \<Rightarrow> pyobject \<times> (error + pydict list)" where
  "traverse self g =
     (case gen_next self g of
        (self', g', Yielded x) \<Rightarrow>
          (case traverse self' g' of
             (self'', Inl e) \<Rightarrow> (self'', Inl e)
           | (self'', Inr xs) \<Rightarrow> (self'', Inr (x # xs)))
      | (self', g', StopIteration) \<Rightarrow> (self', Inr [])
      | (self', g', Raised e) \<Rightarrow> (self', Inl e))"
  by pat_completeness auto
termination
proof (relation "measure (\<lambda>(self, g). remaining g)", goal_cases)
  case 1
  show ?case by simp
next
  case (2 self g)
  then show ?case by (cases g) (auto split: sum.splits)
qed

text \<open>A partial traversal: \<open>n\<close> calls of \<^verbatim>\<open>next\<close>, with the outcome of each.\<close>

fun next_n :: "nat \<Rightarrow> pyobject \<Rightarrow> generator \<Rightarrow> pyobject \<times> generator \<times> pydict outcome list" where
  "next_n 0 self g = (self, g, [])"
| "next_n (Suc n) self g =
     (case gen_next self g of
        (self', g', r) \<Rightarrow>
          (case next_n n self' g' of
             (self'', g'', rs) \<Rightarrow> (self'', g'', r # rs)))"

subsection \<open>Textual representation\<close>

text \<open>
  The f-string is evaluated from left to right: \<^verbatim>\<open>self.length\<close> is read and
  formatted, then \<^verbatim>\<open>self.width\<close>; the first failure is the one raised.
\<close>

definition Rectangle_repr ::
    "nat \<Rightarrow> (pyfloat \<Rightarrow> string) \<Rightarrow> pyobject \<Rightarrow> pyobject \<times> (error + string)" where
  "Rectangle_repr max_str_digits float_str self =
     (case getattr self ''length'' of
        Inl e \<Rightarrow> (self, Inl e)
      | Inr l \<Rightarrow>
          (case py_format max_str_digits float_str l of
             Inl e \<Rightarrow> (self, Inl e)
           | Inr ls \<Rightarrow>
               (case getattr self ''width'' of
                  Inl e \<Rightarrow> (self, Inl e)
                | Inr w \<Rightarrow>
                    (case py_format max_str_digits float_str w of
                       Inl e \<Rightarrow> (self, Inl e)
                     | Inr ws \<Rightarrow>
                         (self, Inr (''Rectangle(length='' @ ls
                                     @ '', width='' @ ws @ '')''))))))"

section \<open>The invariant and the reading of decimals\<close>

text \<open>An instance of \<^verbatim>\<open>int\<close> that stands for an integer greater than zero.\<close>

definition positive_int :: "pyval \<Rightarrow> bool" where
  "positive_int v =
     (isinstance_int v \<and> (case int_value v of None \<Rightarrow> False | Some i \<Rightarrow> 0 < i))"

definition invariant :: "pyobject \<Rightarrow> bool" where
  "invariant self =
     (case getattr self ''length'' of
        Inl e \<Rightarrow> False
      | Inr l \<Rightarrow>
          (case getattr self ''width'' of
             Inl e \<Rightarrow> False
           | Inr w \<Rightarrow> positive_int l \<and> positive_int w))"

text \<open>
  The decimal numeral of a number: a non-empty string of digits with no leading zero
  (but for zero itself) that denotes it.
\<close>

definition dec_value :: "string \<Rightarrow> nat" where
  "dec_value s = foldl (\<lambda>a c. 10 * a + (of_char c - 48)) 0 s"

definition is_digit :: "char \<Rightarrow> bool" where
  "is_digit c = (48 \<le> (of_char c :: nat) \<and> (of_char c :: nat) \<le> 57)"

definition decimal_of :: "string \<Rightarrow> nat \<Rightarrow> bool" where
  "decimal_of s n =
     (s \<noteq> [] \<and> list_all is_digit s \<and> (length s = 1 \<or> hd s \<noteq> CHR ''0'') \<and> dec_value s = n)"

section \<open>Properties\<close>

subsection \<open>Auxiliary facts\<close>

declare str_nat.simps [simp del]
declare traverse.simps [simp del]

lemma Rectangle_init_cases:
  "Rectangle_init obj lv wv =
     (if \<not> isinstance_int lv \<or> \<not> isinstance_int wv
      then (obj, Some (TypeError ''Length and width must be integers.''))
      else if py_le_zero lv = Inr True \<or> py_le_zero wv = Inr True
      then (obj, Some (ValueError ''Length and width must be positive integers.''))
      else (setattr (setattr obj ''length'' lv) ''width'' wv, None))"
  by (cases lv; cases wv) (simp_all add: Rectangle_init_def)

lemma int_value_le_zero:
  "int_value v = Some i \<Longrightarrow> py_le_zero v = Inr (i \<le> 0)"
  by (cases v) (auto)

lemma isinstance_int_value: "isinstance_int v \<longleftrightarrow> int_value v \<noteq> None"
  by (cases v) auto

lemma fresh_attrs:
  "setattr (setattr [] ''length'' lv) ''width'' wv = [(''length'', lv), (''width'', wv)]"
  by (simp add: setattr_def)

lemma Rectangle_Inr_iff:
  "Rectangle lv wv = Inr self \<longleftrightarrow>
     (\<exists>l w. int_value lv = Some l \<and> int_value wv = Some w \<and> 0 < l \<and> 0 < w)
     \<and> self = [(''length'', lv), (''width'', wv)]"
  by (cases lv; cases wv) (auto simp: Rectangle_def Rectangle_init_cases fresh_attrs)

lemma constructed_getattr:
  assumes "Rectangle lv wv = Inr self"
  shows "getattr self ''length'' = Inr lv" and "getattr self ''width'' = Inr wv"
  using assms by (simp_all add: Rectangle_Inr_iff getattr_def)

lemma gen_next_self: "fst (gen_next self g) = self"
  by (cases g) (simp_all split: sum.splits)

lemma next_n_self: "fst (next_n n self g) = self"
proof (induction n arbitrary: self g)
  case 0
  show ?case by simp
next
  case (Suc n)
  obtain s1 g1 r where step: "gen_next self g = (s1, g1, r)"
    by (cases "gen_next self g") auto
  with gen_next_self [of self g] have "s1 = self" by simp
  with step Suc.IH [of self g1] show ?case
    by (auto split: prod.splits)
qed

lemma traverse_Closed: "traverse self Closed = (self, Inr [])"
  by (subst traverse.simps) simp

lemma traverse_AtYield2: "traverse self AtYield2 = (self, Inr [])"
  by (subst traverse.simps) (simp add: traverse_Closed)

lemma traverse_AtYield1:
  "traverse self AtYield1 =
     (case getattr self ''width'' of
        Inl e \<Rightarrow> (self, Inl e)
      | Inr v \<Rightarrow> (self, Inr [[(''width'', v)]]))"
  by (subst traverse.simps) (simp add: traverse_AtYield2 split: sum.splits)

lemma traverse_Created:
  "traverse self Created =
     (case getattr self ''length'' of
        Inl e \<Rightarrow> (self, Inl e)
      | Inr l \<Rightarrow>
          (case getattr self ''width'' of
             Inl e \<Rightarrow> (self, Inl e)
           | Inr w \<Rightarrow> (self, Inr [[(''length'', l)], [(''width'', w)]])))"
  by (subst traverse.simps) (simp add: traverse_AtYield1 split: sum.splits)

lemma traverse_self: "fst (traverse self g) = self"
  by (cases g)
    (simp_all add: traverse_Created traverse_AtYield1 traverse_AtYield2 traverse_Closed
      split: sum.splits)

lemma constructed_traverse:
  assumes "Rectangle lv wv = Inr self"
  shows "traverse self (Rectangle_iter self) = (self, Inr [[(''length'', lv)], [(''width'', wv)]])"
  using constructed_getattr [OF assms]
  by (simp add: Rectangle_iter_def traverse_Created)

lemma constructed_next_3:
  assumes "Rectangle lv wv = Inr self"
  shows "next_n 3 self (Rectangle_iter self) =
           (self, Closed, [Yielded [(''length'', lv)], Yielded [(''width'', wv)], StopIteration])"
  using constructed_getattr [OF assms]
  by (simp add: Rectangle_iter_def numeral_3_eq_3)

text \<open>
  Claim C1. For all integers \<open>l > 0\<close> and \<open>w > 0\<close> the call \<^verbatim>\<open>Rectangle(l, w)\<close>
  returns an object, and a traversal of it collects the two mappings
  \<^verbatim>\<open>{"length": l}\<close>, \<^verbatim>\<open>{"width": w}\<close> in that order and nothing else: the third
  \<^verbatim>\<open>next\<close> stops the iteration.
\<close>

theorem Rectangle_iterates_length_then_width:
  assumes "0 < l" and "0 < w"
  shows "\<exists>self. Rectangle (PyInt l) (PyInt w) = Inr self
           \<and> traverse self (Rectangle_iter self)
               = (self, Inr [[(''length'', PyInt l)], [(''width'', PyInt w)]])
           \<and> next_n 3 self (Rectangle_iter self)
               = (self, Closed,
                  [Yielded [(''length'', PyInt l)], Yielded [(''width'', PyInt w)], StopIteration])"
proof -
  have ok: "Rectangle (PyInt l) (PyInt w) = Inr [(''length'', PyInt l), (''width'', PyInt w)]"
    using assms by (simp add: Rectangle_Inr_iff)
  from ok constructed_traverse [OF ok] constructed_next_3 [OF ok] show ?thesis
    by blast
qed

theorem Rectangle_iterates_length_then_width_witness:
  "Rectangle (PyInt 5) (PyInt 3) = Inr [(''length'', PyInt 5), (''width'', PyInt 3)]
   \<and> traverse [(''length'', PyInt 5), (''width'', PyInt 3)]
        (Rectangle_iter [(''length'', PyInt 5), (''width'', PyInt 3)])
      = ([(''length'', PyInt 5), (''width'', PyInt 3)],
         Inr [[(''length'', PyInt 5)], [(''width'', PyInt 3)]])"
proof -
  have l: "(0::int) < 5" and w: "(0::int) < 3" by simp_all
  from Rectangle_iterates_length_then_width [OF l w] show ?thesis
    by (auto simp: Rectangle_Inr_iff)
qed

text \<open>
  Claim C2. When \<^verbatim>\<open>length\<close> or \<^verbatim>\<open>width\<close> is not an instance of \<^verbatim>\<open>int\<close> (a float,
  a string, \<^verbatim>\<open>None\<close>), construction raises the \<^verbatim>\<open>TypeError\<close> of the class, whatever
  the sign of either argument: the type check comes before the positivity check.
\<close>

theorem Rectangle_non_integer_is_TypeError:
  assumes "\<not> isinstance_int lv \<or> \<not> isinstance_int wv"
  shows "Rectangle lv wv = Inl (TypeError ''Length and width must be integers.'')"
  using assms by (simp add: Rectangle_def Rectangle_init_cases)

theorem Rectangle_non_integer_is_TypeError_witness:
  "Rectangle (PyFloat (FFinite (- 3) 0)) (PyInt 2)
     = Inl (TypeError ''Length and width must be integers.'')
   \<and> Rectangle (PyInt (- 1)) (PyStr ''x'')
     = Inl (TypeError ''Length and width must be integers.'')"
  using Rectangle_non_integer_is_TypeError [of "PyFloat (FFinite (- 3) 0)" "PyInt 2"] Rectangle_non_integer_is_TypeError [of "PyInt (- 1)" "PyStr ''x''"]
  by simp

text \<open>
  Claim C3. When both arguments are instances of \<^verbatim>\<open>int\<close>, standing for the integers
  \<open>l\<close> and \<open>w\<close>, and \<open>l \<le> 0\<close> or \<open>w \<le> 0\<close>, construction raises the \<^verbatim>\<open>ValueError\<close>
  of the class.
\<close>

theorem Rectangle_non_positive_is_ValueError:
  assumes "int_value lv = Some l" and "int_value wv = Some w" and "l \<le> 0 \<or> w \<le> 0"
  shows "Rectangle lv wv = Inl (ValueError ''Length and width must be positive integers.'')"
  using assms
  by (auto simp: Rectangle_def Rectangle_init_cases isinstance_int_value int_value_le_zero)

theorem Rectangle_non_positive_is_ValueError_witness:
  "Rectangle (PyInt 0) (PyInt 3)
     = Inl (ValueError ''Length and width must be positive integers.'')
   \<and> Rectangle (PyInt 5) (PyBool False)
     = Inl (ValueError ''Length and width must be positive integers.'')"
  using Rectangle_non_positive_is_ValueError [of "PyInt 0" 0 "PyInt 3" 3] Rectangle_non_positive_is_ValueError [of "PyInt 5" 5 "PyBool False" 0]
  by simp

lemma Rectangle_repr_self: "fst (Rectangle_repr m fs self) = self"
  by (simp add: Rectangle_repr_def split: sum.splits)

lemma constructed_invariant:
  assumes "Rectangle lv wv = Inr self"
  shows "invariant self"
  using assms constructed_getattr [OF assms]
  by (auto simp: invariant_def positive_int_def Rectangle_Inr_iff isinstance_int_value)

text \<open>
  Claim C4. The invariant (both attributes are set, are instances of \<^verbatim>\<open>int\<close>
  and stand for integers greater than zero) holds of every object the constructor
  returns, and every operation of the class keeps it: one \<^verbatim>\<open>next\<close> of a generator in
  any state, any number of them, a whole traversal, and \<^verbatim>\<open>__repr__\<close>.
\<close>

theorem Rectangle_invariant_kept:
  "(Rectangle lv wv = Inr self \<longrightarrow> invariant self)
   \<and> (invariant obj \<longrightarrow>
        invariant (fst (gen_next obj g))
        \<and> invariant (fst (next_n n obj g))
        \<and> invariant (fst (traverse obj g))
        \<and> invariant (fst (Rectangle_repr m fs obj)))"
  by (simp add: constructed_invariant gen_next_self next_n_self traverse_self Rectangle_repr_self)

theorem Rectangle_invariant_kept_witness:
  "Rectangle (PyInt 5) (PyInt 3) = Inr [(''length'', PyInt 5), (''width'', PyInt 3)]
   \<and> invariant [(''length'', PyInt 5), (''width'', PyInt 3)]
   \<and> invariant (fst (next_n 1 [(''length'', PyInt 5), (''width'', PyInt 3)] Created))
   \<and> invariant (fst (traverse [(''length'', PyInt 5), (''width'', PyInt 3)] Created))
   \<and> invariant (fst (Rectangle_repr 4300 (\<lambda>f. []) [(''length'', PyInt 5), (''width'', PyInt 3)]))"
proof -
  let ?r = "[(''length'', PyInt 5), (''width'', PyInt 3)]"
  have made: "Rectangle (PyInt 5) (PyInt 3) = Inr ?r"
    by (simp add: Rectangle_Inr_iff)
  have inv: "invariant ?r"
    using made Rectangle_invariant_kept [of "PyInt 5" "PyInt 3" ?r ?r Created 1 4300 "\<lambda>f. []"] by blast
  from made inv Rectangle_invariant_kept [of "PyInt 5" "PyInt 3" ?r ?r Created 1 4300 "\<lambda>f. []"] show ?thesis
    by blast
qed

text \<open>
  Claim C5. Two traversals of the same constructed object, each with its own
  call of \<^verbatim>\<open>__iter__\<close>, collect the same two mappings in the same order; so does a
  traversal started after another generator was advanced \<open>k\<close> times.
\<close>

theorem Rectangle_iteration_restartable:
  assumes "Rectangle lv wv = Inr self"
  shows "traverse self (Rectangle_iter self)
           = (self, Inr [[(''length'', lv)], [(''width'', wv)]])
         \<and> traverse (fst (traverse self (Rectangle_iter self)))
               (Rectangle_iter (fst (traverse self (Rectangle_iter self))))
           = (self, Inr [[(''length'', lv)], [(''width'', wv)]])
         \<and> traverse (fst (next_n k self (Rectangle_iter self)))
               (Rectangle_iter (fst (next_n k self (Rectangle_iter self))))
           = (self, Inr [[(''length'', lv)], [(''width'', wv)]])"
  by (simp add: constructed_traverse [OF assms] next_n_self)

theorem Rectangle_iteration_restartable_witness:
  "traverse (fst (traverse [(''length'', PyInt 5), (''width'', PyInt 3)]
                    (Rectangle_iter [(''length'', PyInt 5), (''width'', PyInt 3)])))
     (Rectangle_iter (fst (traverse [(''length'', PyInt 5), (''width'', PyInt 3)]
                    (Rectangle_iter [(''length'', PyInt 5), (''width'', PyInt 3)]))))
   = ([(''length'', PyInt 5), (''width'', PyInt 3)],
      Inr [[(''length'', PyInt 5)], [(''width'', PyInt 3)]])"
proof -
  have made: "Rectangle (PyInt 5) (PyInt 3) = Inr [(''length'', PyInt 5), (''width'', PyInt 3)]"
    by (simp add: Rectangle_Inr_iff)
  from Rectangle_iteration_restartable [OF made, of 1] show ?thesis
    by simp
qed

lemma digit_value: "d < 10 \<Longrightarrow> of_char (digit_char d) - 48 = d"
  by (simp add: digit_char_def)

lemma digit_char_is_digit: "d < 10 \<Longrightarrow> is_digit (digit_char d)"
  by (simp add: digit_char_def is_digit_def)

lemma digit_char_zero: "d < 10 \<Longrightarrow> digit_char d = CHR ''0'' \<longleftrightarrow> d = 0"
proof
  assume "d < 10" and "digit_char d = CHR ''0''"
  then have "of_char (digit_char d) - 48 = (of_char (CHR ''0'') :: nat) - 48" by simp
  with \<open>d < 10\<close> show "d = 0" by (simp add: digit_value)
next
  assume "d = 0" then show "digit_char d = CHR ''0''"
    by (simp add: digit_char_def) code_simp
qed

lemma dec_value_snoc:
  "dec_value (s @ [c]) = 10 * dec_value s + (of_char c - 48)"
  by (simp add: dec_value_def)

lemma str_nat_small: "n < 10 \<Longrightarrow> str_nat n = [digit_char n]"
  by (subst str_nat.simps) simp

lemma str_nat_large:
  "\<not> n < 10 \<Longrightarrow> str_nat n = str_nat (n div 10) @ [digit_char (n mod 10)]"
  by (subst str_nat.simps) simp

lemma str_nat_not_empty: "str_nat n \<noteq> []"
  by (cases "n < 10") (simp_all add: str_nat_small str_nat_large)

lemma str_nat_value: "dec_value (str_nat n) = n"
proof (induction n rule: str_nat.induct)
  case (1 n)
  show ?case
  proof (cases "n < 10")
    case True
    then show ?thesis
      by (simp add: str_nat_small dec_value_def digit_value)
  next
    case False
    with "1" have "dec_value (str_nat (n div 10)) = n div 10" by simp
    with False show ?thesis
      by (simp add: str_nat_large dec_value_snoc digit_value)
  qed
qed

lemma str_nat_digits: "list_all is_digit (str_nat n)"
proof (induction n rule: str_nat.induct)
  case (1 n)
  show ?case
  proof (cases "n < 10")
    case True
    then show ?thesis by (simp add: str_nat_small digit_char_is_digit)
  next
    case False
    with "1" have "list_all is_digit (str_nat (n div 10))" by simp
    with False show ?thesis by (simp add: str_nat_large digit_char_is_digit)
  qed
qed

lemma str_nat_no_leading_zero: "0 < n \<Longrightarrow> hd (str_nat n) \<noteq> CHR ''0''"
proof (induction n rule: str_nat.induct)
  case (1 n)
  show ?case
  proof (cases "n < 10")
    case True
    with "1.prems" show ?thesis by (simp add: str_nat_small digit_char_zero)
  next
    case False
    then have "0 < n div 10" by simp
    with False "1.IH" have "hd (str_nat (n div 10)) \<noteq> CHR ''0''" by simp
    with False show ?thesis by (simp add: str_nat_large str_nat_not_empty)
  qed
qed

lemma str_nat_decimal: "decimal_of (str_nat n) n"
proof -
  have "length (str_nat n) = 1 \<or> hd (str_nat n) \<noteq> CHR ''0''"
  proof (cases "n = 0")
    case True
    then show ?thesis by (simp add: str_nat_small)
  next
    case False
    then show ?thesis by (simp add: str_nat_no_leading_zero)
  qed
  then show ?thesis
    by (simp add: decimal_of_def str_nat_not_empty str_nat_digits str_nat_value)
qed

lemma str_nat_length_le: "0 < k \<Longrightarrow> n < 10 ^ k \<Longrightarrow> length (str_nat n) \<le> k"
proof (induction n arbitrary: k rule: str_nat.induct)
  case (1 n)
  show ?case
  proof (cases "n < 10")
    case True
    with "1.prems" show ?thesis by (simp add: str_nat_small)
  next
    case False
    from "1.prems" obtain j where k: "k = Suc j"
      by (cases k) auto
    have j: "0 < j"
    proof (rule ccontr)
      assume "\<not> 0 < j"
      with k "1.prems" False show False by simp
    qed
    from "1.prems" k have "n < 10 * 10 ^ j" by simp
    then have "n div 10 < 10 ^ j" by arith
    with False j "1.IH" [of j] have "length (str_nat (n div 10)) \<le> j" by simp
    with False k show ?thesis by (simp add: str_nat_large)
  qed
qed

lemma str_nat_length_gt: "10 ^ k \<le> n \<Longrightarrow> k < length (str_nat n)"
proof (induction n arbitrary: k rule: str_nat.induct)
  case (1 n)
  show ?case
  proof (cases k)
    case 0
    have "str_nat n \<noteq> []" by (rule str_nat_not_empty)
    with 0 show ?thesis by simp
  next
    case (Suc j)
    with "1.prems" have big: "10 * 10 ^ j \<le> n" by simp
    have "(1::nat) \<le> 10 ^ j" by simp
    with big have large: "\<not> n < 10" by arith
    from big have "10 ^ j \<le> n div 10" by arith
    with large "1.IH" [of j] have "j < length (str_nat (n div 10))" by simp
    with large Suc show ?thesis by (simp add: str_nat_large)
  qed
qed

lemma str_int_within_limit:
  assumes "0 \<le> i" and "m = 0 \<or> i < 10 ^ max 640 m"
  shows "str_int m i = Inr (str_nat (nat i))"
proof (cases "m = 0")
  case True
  with assms(1) show ?thesis by (simp add: str_int_def Let_def)
next
  case False
  with assms have "nat i < 10 ^ max 640 m"
    by (simp add: nat_less_iff)
  then have "length (str_nat (nat i)) \<le> max 640 m"
    by (intro str_nat_length_le) simp_all
  with assms(1) show ?thesis
    by (auto simp: str_int_def Let_def)
qed

lemma str_int_over_limit:
  assumes "640 \<le> m" and "10 ^ m \<le> i"
  shows "str_int m i = Inl (digit_limit_error m)"
proof -
  have "(0::int) < 10 ^ m" by simp
  with assms(2) have pos: "0 \<le> i" by linarith
  from assms(2) pos have "10 ^ m \<le> nat i"
    by (simp add: le_nat_iff)
  then have "m < length (str_nat (nat i))"
    by (rule str_nat_length_gt)
  with assms(1) pos show ?thesis
    by (simp add: str_int_def Let_def)
qed

lemma small_within_limit: "i < 10 \<Longrightarrow> i < (10::int) ^ max 640 m"
proof -
  assume "i < 10"
  moreover have "(10::int) ^ 1 \<le> 10 ^ max 640 m"
    by (rule power_increasing) simp_all
  ultimately show ?thesis by simp
qed

lemma py_format_outcomes:
  "(\<exists>s. py_format m fs v = Inr s) \<or> py_format m fs v = Inl (digit_limit_error m)"
  by (cases v) (simp_all add: str_int_def Let_def)

lemma py_format_constructed:
  assumes "int_value v = Some i" and "0 < i" and "m = 0 \<or> i < 10 ^ max 640 m"
  shows "\<exists>s. py_format m fs v = Inr s
           \<and> (v = PyBool True \<and> s = ''True'' \<or> v = PyInt i \<and> decimal_of s (nat i))"
proof (cases v)
  case (PyInt j)
  with assms(1) have "j = i" by simp
  with PyInt assms(2,3) str_int_within_limit [of i m] show ?thesis
    by (simp add: str_nat_decimal)
next
  case (PyBool b)
  with assms(1,2) show ?thesis by (cases b) auto
qed (use assms(1) in simp_all)

lemma constructed_repr:
  assumes "Rectangle lv wv = Inr self"
    and "py_format m fs lv = Inr ls" and "py_format m fs wv = Inr ws"
  shows "Rectangle_repr m fs self
           = (self, Inr (''Rectangle(length='' @ ls @ '', width='' @ ws @ '')''))"
  using constructed_getattr [OF assms(1)] assms(2,3) by (simp add: Rectangle_repr_def)

lemma constructed_repr_outcomes:
  assumes "Rectangle lv wv = Inr self"
  shows "(\<exists>s. snd (Rectangle_repr m fs self) = Inr s)
         \<or> snd (Rectangle_repr m fs self) = Inl (digit_limit_error m)"
  using constructed_getattr [OF assms] py_format_outcomes [of m fs lv] py_format_outcomes [of m fs wv]
  by (auto simp: Rectangle_repr_def)

lemma constructed_repr_within_limit:
  assumes "Rectangle lv wv = Inr self"
    and "int_value lv = Some l" and "int_value wv = Some w"
    and "m = 0 \<or> l < 10 ^ max 640 m \<and> w < 10 ^ max 640 m"
  shows "\<exists>ls ws. Rectangle_repr m fs self
                    = (self, Inr (''Rectangle(length='' @ ls @ '', width='' @ ws @ '')''))
           \<and> (lv = PyBool True \<and> ls = ''True'' \<or> lv = PyInt l \<and> decimal_of ls (nat l))
           \<and> (wv = PyBool True \<and> ws = ''True'' \<or> wv = PyInt w \<and> decimal_of ws (nat w))"
proof -
  from assms(1-3) have pos: "0 < l" "0 < w"
    by (simp_all add: Rectangle_Inr_iff)
  from assms(4) have "m = 0 \<or> l < 10 ^ max 640 m" by blast
  from py_format_constructed [OF assms(2) pos(1) this, of fs]
  obtain ls where ls: "py_format m fs lv = Inr ls"
      "lv = PyBool True \<and> ls = ''True'' \<or> lv = PyInt l \<and> decimal_of ls (nat l)"
    by blast
  from assms(4) have "m = 0 \<or> w < 10 ^ max 640 m" by blast
  from py_format_constructed [OF assms(3) pos(2) this, of fs]
  obtain ws where ws: "py_format m fs wv = Inr ws"
      "wv = PyBool True \<and> ws = ''True'' \<or> wv = PyInt w \<and> decimal_of ws (nat w)"
    by blast
  from constructed_repr [OF assms(1) ls(1) ws(1)] ls(2) ws(2) show ?thesis
    by blast
qed

lemma repr_5_3:
  "Rectangle_repr m fs [(''length'', PyInt 5), (''width'', PyInt 3)]
     = ([(''length'', PyInt 5), (''width'', PyInt 3)], Inr ''Rectangle(length=5, width=3)'')"
proof -
  have made: "Rectangle (PyInt 5) (PyInt 3) = Inr [(''length'', PyInt 5), (''width'', PyInt 3)]"
    by (simp add: Rectangle_Inr_iff)
  have "str_nat 5 = ''5''" and "str_nat 3 = ''3''"
    by code_simp+
  then have "py_format m fs (PyInt 5) = Inr ''5''" and "py_format m fs (PyInt 3) = Inr ''3''"
    using str_int_within_limit [of 5 m] str_int_within_limit [of 3 m]
      small_within_limit [of 5 m] small_within_limit [of 3 m]
    by simp_all
  from constructed_repr [OF made this] show ?thesis by simp
qed

lemma repr_over_limit_length:
  assumes "640 \<le> m" and "10 ^ m \<le> n"
  shows "Rectangle (PyInt n) (PyInt 1) = Inr [(''length'', PyInt n), (''width'', PyInt 1)]
         \<and> Rectangle_repr m fs [(''length'', PyInt n), (''width'', PyInt 1)]
           = ([(''length'', PyInt n), (''width'', PyInt 1)], Inl (digit_limit_error m))"
proof -
  have "(0::int) < 10 ^ m" by simp
  with assms(2) have "0 < n" by linarith
  then have made: "Rectangle (PyInt n) (PyInt 1) = Inr [(''length'', PyInt n), (''width'', PyInt 1)]"
    by (simp add: Rectangle_Inr_iff)
  from constructed_getattr [OF made] str_int_over_limit [OF assms] made show ?thesis
    by (simp add: Rectangle_repr_def)
qed

lemma repr_over_limit_width:
  assumes "640 \<le> m" and "10 ^ m \<le> n"
  shows "Rectangle (PyInt 1) (PyInt n) = Inr [(''length'', PyInt 1), (''width'', PyInt n)]
         \<and> snd (Rectangle_repr m fs [(''length'', PyInt 1), (''width'', PyInt n)])
           = Inl (digit_limit_error m)"
proof -
  have "(0::int) < 10 ^ m" by simp
  with assms(2) have "0 < n" by linarith
  then have made: "Rectangle (PyInt 1) (PyInt n) = Inr [(''length'', PyInt 1), (''width'', PyInt n)]"
    by (simp add: Rectangle_Inr_iff)
  have "str_int m 1 = Inr (str_nat (nat 1))"
    using str_int_within_limit [of 1 m] small_within_limit [of 1 m] by simp
  with constructed_getattr [OF made] str_int_over_limit [OF assms] made show ?thesis
    by (simp add: Rectangle_repr_def)
qed

lemma digit_chars:
  "digit_char 0 = CHR ''0''" "digit_char 1 = CHR ''1''" "digit_char 2 = CHR ''2''"
  "digit_char 3 = CHR ''3''" "digit_char 4 = CHR ''4''" "digit_char 5 = CHR ''5''"
  "digit_char 6 = CHR ''6''" "digit_char 7 = CHR ''7''" "digit_char 8 = CHR ''8''"
  "digit_char 9 = CHR ''9''" "digit_char (Suc 0) = CHR ''1''"
  by code_simp+

lemma digit_limit_error_4300:
  "digit_limit_error 4300
     = ValueError ''Exceeds the limit (4300 digits) for integer string conversion; use sys.set_int_max_str_digits() to increase the limit''"
  by (simp add: digit_limit_error_def str_nat_large str_nat_small digit_chars)

text \<open>
  Claim C6, amended. Let the interpreter's limit on the digits of a converted integer
  be \<open>m\<close> (4300 unless set otherwise, 0 for none). The textual representation of a
  constructed object whose attributes stand for \<open>l\<close> and \<open>w\<close>, each of at most
  \<open>max 640 m\<close> decimal digits when \<open>m\<close> is not 0, is
  \<^verbatim>\<open>Rectangle(length=<l>, width=<w>)\<close>, where an integer is shown by its decimal
  numeral and \<^verbatim>\<open>True\<close> by \<^verbatim>\<open>True\<close>; that of \<^verbatim>\<open>Rectangle(5, 3)\<close> is
  \<^verbatim>\<open>Rectangle(length=5, width=3)\<close> under every limit.
\<close>

theorem Rectangle_repr_text:
  "(Rectangle lv wv = Inr self \<and> int_value lv = Some l \<and> int_value wv = Some w
      \<and> (m = 0 \<or> l < 10 ^ max 640 m \<and> w < 10 ^ max 640 m) \<longrightarrow>
      (\<exists>ls ws. Rectangle_repr m fs self
                  = (self, Inr (''Rectangle(length='' @ ls @ '', width='' @ ws @ '')''))
         \<and> (lv = PyBool True \<and> ls = ''True'' \<or> lv = PyInt l \<and> decimal_of ls (nat l))
         \<and> (wv = PyBool True \<and> ws = ''True'' \<or> wv = PyInt w \<and> decimal_of ws (nat w))))
   \<and> (\<exists>r. Rectangle (PyInt 5) (PyInt 3) = Inr r
          \<and> Rectangle_repr m fs r = (r, Inr ''Rectangle(length=5, width=3)''))"
proof -
  have made: "Rectangle (PyInt 5) (PyInt 3) = Inr [(''length'', PyInt 5), (''width'', PyInt 3)]"
    by (simp add: Rectangle_Inr_iff)
  with repr_5_3 [of m fs]
  have "\<exists>r. Rectangle (PyInt 5) (PyInt 3) = Inr r
          \<and> Rectangle_repr m fs r = (r, Inr ''Rectangle(length=5, width=3)'')"
    by simp
  then show ?thesis
    using constructed_repr_within_limit [of lv wv self l w m fs] by blast
qed

theorem Rectangle_repr_text_witness:
  "Rectangle (PyInt 12) (PyBool True) = Inr [(''length'', PyInt 12), (''width'', PyBool True)]
   \<and> Rectangle_repr 4300 (\<lambda>f. []) [(''length'', PyInt 12), (''width'', PyBool True)]
     = ([(''length'', PyInt 12), (''width'', PyBool True)],
        Inr ''Rectangle(length=12, width=True)'')"
proof -
  let ?r = "[(''length'', PyInt 12), (''width'', PyBool True)]"
  let ?k = "max 640 (4300::nat)"
  have made: "Rectangle (PyInt 12) (PyBool True) = Inr ?r"
    by (simp add: Rectangle_Inr_iff)
  have "(12::int) < 10 ^ 2" by simp
  also have "(10::int) ^ 2 \<le> 10 ^ ?k"
    by (rule power_increasing) simp_all
  finally have twelve: "(12::int) < 10 ^ ?k" .
  have one: "(1::int) < 10 ^ ?k"
    by (rule small_within_limit) simp
  have l: "int_value (PyInt 12) = Some 12" and w: "int_value (PyBool True) = Some 1"
    by simp_all
  from twelve one have fits: "(4300::nat) = 0 \<or> (12::int) < 10 ^ ?k \<and> (1::int) < 10 ^ ?k"
    by (intro disjI2 conjI)
  from made l w fits
  have "Rectangle (PyInt 12) (PyBool True) = Inr ?r \<and> int_value (PyInt 12) = Some 12
        \<and> int_value (PyBool True) = Some 1
        \<and> ((4300::nat) = 0 \<or> (12::int) < 10 ^ ?k \<and> (1::int) < 10 ^ ?k)"
    by (intro conjI)
  with Rectangle_repr_text [of "PyInt 12" "PyBool True" ?r 12 1 4300 "\<lambda>f. []"]
  obtain ls ws where shown: "Rectangle_repr 4300 (\<lambda>f. []) ?r
                     = (?r, Inr (''Rectangle(length='' @ ls @ '', width='' @ ws @ '')''))"
    by blast
  have "Rectangle_repr 4300 (\<lambda>f. []) ?r = (?r, Inr ''Rectangle(length=12, width=True)'')"
    by (simp add: Rectangle_repr_def getattr_def str_int_def Let_def
        str_nat_large str_nat_small digit_chars)
  with made show ?thesis by (intro conjI)
qed

text \<open>
  The claim as first stated, for every constructed object, fails: under the default
  limit \<^verbatim>\<open>Rectangle(10 ** 4300, 1)\<close> is constructed, its length has 4301 digits,
  and \<^verbatim>\<open>__repr__\<close> raises the interpreter's \<^verbatim>\<open>ValueError\<close> instead of returning a
  string.
\<close>

theorem Rectangle_repr_text_counterexample:
  "Rectangle (PyInt (10 ^ 4300)) (PyInt 1)
     = Inr [(''length'', PyInt (10 ^ 4300)), (''width'', PyInt 1)]
   \<and> Rectangle_repr 4300 (\<lambda>f. []) [(''length'', PyInt (10 ^ 4300)), (''width'', PyInt 1)]
     = ([(''length'', PyInt (10 ^ 4300)), (''width'', PyInt 1)],
        Inl (ValueError ''Exceeds the limit (4300 digits) for integer string conversion; use sys.set_int_max_str_digits() to increase the limit''))"
proof -
  have limit: "(640::nat) \<le> 4300" by simp
  have big: "(10::int) ^ 4300 \<le> 10 ^ 4300" by (rule order_refl)
  from repr_over_limit_length [OF limit big, of "\<lambda>f. []"] show ?thesis
    by (simp only: digit_limit_error_4300)
qed

text \<open>
  Claim C7. Iteration does not change the object: after \<open>n\<close> calls of \<^verbatim>\<open>next\<close>
  (a partial traversal, from any state of the generator) and after a whole traversal,
  the object is the one before, and its attributes \<^verbatim>\<open>length\<close> and \<^verbatim>\<open>width\<close> hold
  the values given at construction.
\<close>

theorem Rectangle_iteration_no_mutation:
  assumes "Rectangle lv wv = Inr self"
  shows "fst (next_n n self g) = self
         \<and> getattr (fst (next_n n self g)) ''length'' = Inr lv
         \<and> getattr (fst (next_n n self g)) ''width'' = Inr wv
         \<and> fst (traverse self g) = self
         \<and> getattr (fst (traverse self g)) ''length'' = Inr lv
         \<and> getattr (fst (traverse self g)) ''width'' = Inr wv"
  by (simp add: next_n_self traverse_self constructed_getattr [OF assms])

theorem Rectangle_iteration_no_mutation_witness:
  "fst (next_n 1 [(''length'', PyInt 5), (''width'', PyInt 3)]
          (Rectangle_iter [(''length'', PyInt 5), (''width'', PyInt 3)]))
     = [(''length'', PyInt 5), (''width'', PyInt 3)]
   \<and> fst (traverse [(''length'', PyInt 5), (''width'', PyInt 3)]
          (Rectangle_iter [(''length'', PyInt 5), (''width'', PyInt 3)]))
     = [(''length'', PyInt 5), (''width'', PyInt 3)]"
proof -
  have made: "Rectangle (PyInt 5) (PyInt 3) = Inr [(''length'', PyInt 5), (''width'', PyInt 3)]"
    by (simp add: Rectangle_Inr_iff)
  from Rectangle_iteration_no_mutation [OF made, of 1 "Rectangle_iter [(''length'', PyInt 5), (''width'', PyInt 3)]"]
  show ?thesis by simp
qed

lemma setattr_getattr_same: "getattr (setattr obj name v) name = Inr v"
  by (simp add: getattr_def setattr_def update_conv')

lemma setattr_getattr_other:
  "name' \<noteq> name \<Longrightarrow> getattr (setattr obj name v) name' = getattr obj name'"
  by (simp add: getattr_def setattr_def update_conv')

text \<open>
  Claim C8. Construction is atomic. When \<^verbatim>\<open>__init__\<close> returns, the attributes
  \<^verbatim>\<open>length\<close> and \<^verbatim>\<open>width\<close> hold the two arguments and every other attribute is as it
  was; when it raises, the object is untouched and the exception is one of the two of
  the class. The call \<^verbatim>\<open>Rectangle(l, w)\<close> returns an object with exactly these two
  attributes, or the exception of the one run of \<^verbatim>\<open>__init__\<close> on a fresh object,
  which has then no attribute.
\<close>

theorem Rectangle_construction_atomic:
  "(Rectangle_init obj lv wv = (obj', None) \<longrightarrow>
      getattr obj' ''length'' = Inr lv \<and> getattr obj' ''width'' = Inr wv
      \<and> (\<forall>name. name \<noteq> ''length'' \<and> name \<noteq> ''width'' \<longrightarrow> getattr obj' name = getattr obj name))
   \<and> (Rectangle_init obj lv wv = (obj', Some e) \<longrightarrow>
        obj' = obj
        \<and> (e = TypeError ''Length and width must be integers.''
           \<or> e = ValueError ''Length and width must be positive integers.''))
   \<and> (Rectangle lv wv = Inr self \<longrightarrow> self = [(''length'', lv), (''width'', wv)])
   \<and> (Rectangle lv wv = Inl e \<longrightarrow> Rectangle_init [] lv wv = ([], Some e))"
proof -
  have success: "getattr obj' ''length'' = Inr lv \<and> getattr obj' ''width'' = Inr wv
      \<and> (\<forall>name. name \<noteq> ''length'' \<and> name \<noteq> ''width'' \<longrightarrow> getattr obj' name = getattr obj name)"
    if "Rectangle_init obj lv wv = (obj', None)"
  proof -
    from that have "obj' = setattr (setattr obj ''length'' lv) ''width'' wv"
      by (simp add: Rectangle_init_cases split: if_splits)
    then show ?thesis
      by (simp add: setattr_getattr_same setattr_getattr_other)
  qed
  have failure: "obj' = obj
        \<and> (e = TypeError ''Length and width must be integers.''
           \<or> e = ValueError ''Length and width must be positive integers.'')"
    if "Rectangle_init obj lv wv = (obj', Some e)"
    using that by (auto simp: Rectangle_init_cases split: if_splits)
  have made: "self = [(''length'', lv), (''width'', wv)]" if "Rectangle lv wv = Inr self"
    using that by (simp add: Rectangle_Inr_iff)
  have raised: "Rectangle_init [] lv wv = ([], Some e)" if "Rectangle lv wv = Inl e"
    using that by (auto simp: Rectangle_def Rectangle_init_cases split: if_splits)
  from success failure made raised show ?thesis
    by blast
qed

theorem Rectangle_construction_atomic_witness:
  "Rectangle_init [] (PyInt 5) (PyInt 3) = ([(''length'', PyInt 5), (''width'', PyInt 3)], None)
   \<and> getattr [(''length'', PyInt 5), (''width'', PyInt 3)] ''length'' = Inr (PyInt 5)
   \<and> getattr [(''length'', PyInt 5), (''width'', PyInt 3)] ''width'' = Inr (PyInt 3)
   \<and> getattr [(''length'', PyInt 5), (''width'', PyInt 3)] ''area'' = Inl (AttributeError ''area'')
   \<and> Rectangle_init [] (PyInt 0) (PyInt 3)
       = ([], Some (ValueError ''Length and width must be positive integers.''))
   \<and> Rectangle_init [] (PyInt 5) (PyFloat (FFinite 3 0))
       = ([], Some (TypeError ''Length and width must be integers.''))
   \<and> Rectangle (PyInt 0) (PyInt 3)
       = Inl (ValueError ''Length and width must be positive integers.'')"
proof -
  let ?r = "[(''length'', PyInt 5), (''width'', PyInt 3)]"
  let ?v = "ValueError ''Length and width must be positive integers.''"
  let ?t = "TypeError ''Length and width must be integers.''"
  have ok: "Rectangle_init [] (PyInt 5) (PyInt 3) = (?r, None)"
    by (simp add: Rectangle_init_cases fresh_attrs)
  have bad: "Rectangle_init [] (PyInt 0) (PyInt 3) = ([], Some ?v)"
    by (simp add: Rectangle_init_cases)
  have worse: "Rectangle_init [] (PyInt 5) (PyFloat (FFinite 3 0)) = ([], Some ?t)"
    by (simp add: Rectangle_init_cases)
  have none: "Rectangle (PyInt 0) (PyInt 3) = Inl ?v"
    by (simp add: Rectangle_def bad)
  have area: "getattr [] ''area'' = Inl (AttributeError ''area'')"
    by (simp add: getattr_def)
  from Rectangle_construction_atomic [of "[]" "PyInt 5" "PyInt 3" ?r ?v "[]"] ok area
  have "getattr ?r ''length'' = Inr (PyInt 5) \<and> getattr ?r ''width'' = Inr (PyInt 3)
        \<and> getattr ?r ''area'' = Inl (AttributeError ''area'')"
    by simp
  with ok bad worse none show ?thesis
    by simp
qed

lemma gen_next_no_raise:
  assumes "getattr self ''length'' = Inr l" and "getattr self ''width'' = Inr w"
  shows "snd (snd (gen_next self g)) \<noteq> Raised e"
  using assms by (cases g) simp_all

lemma next_n_no_raise:
  assumes "getattr self ''length'' = Inr l" and "getattr self ''width'' = Inr w"
  shows "Raised e \<notin> set (snd (snd (next_n n self g)))"
proof (induction n arbitrary: g)
  case 0
  show ?case by simp
next
  case (Suc n)
  obtain s1 g1 r where step: "gen_next self g = (s1, g1, r)"
    by (cases "gen_next self g") auto
  with gen_next_self [of self g] have same: "s1 = self" by simp
  from step gen_next_no_raise [OF assms, of g e] have "r \<noteq> Raised e" by simp
  with step same Suc.IH [of g1] show ?case
    by (auto split: prod.splits)
qed

text \<open>
  Claim C9, amended. On a constructed object iteration never raises: a \<^verbatim>\<open>next\<close> of
  a generator in any state yields or stops, so do \<open>n\<close> of them, and a traversal returns
  its items. \<^verbatim>\<open>__repr__\<close> either returns a string or raises the interpreter's
  \<^verbatim>\<open>ValueError\<close> for an integer of more digits than the limit \<open>m\<close>, and nothing
  else; it returns a string whenever the limit is 0 or both attributes have at most
  \<open>max 640 m\<close> decimal digits.
\<close>

theorem Rectangle_methods_never_raise:
  assumes "Rectangle lv wv = Inr self"
  shows "snd (snd (gen_next self g)) \<noteq> Raised e
         \<and> Raised e \<notin> set (snd (snd (next_n n self g)))
         \<and> (\<exists>items. snd (traverse self g) = Inr items)
         \<and> ((\<exists>s. snd (Rectangle_repr m fs self) = Inr s)
            \<or> snd (Rectangle_repr m fs self) = Inl (digit_limit_error m))
         \<and> (int_value lv = Some l \<and> int_value wv = Some w
              \<and> (m = 0 \<or> l < 10 ^ max 640 m \<and> w < 10 ^ max 640 m) \<longrightarrow>
            (\<exists>s. snd (Rectangle_repr m fs self) = Inr s))"
proof -
  note attrs = constructed_getattr [OF assms]
  have "\<exists>items. snd (traverse self g) = Inr items"
    using attrs
    by (cases g)
      (simp_all add: traverse_Created traverse_AtYield1 traverse_AtYield2 traverse_Closed)
  moreover have "\<exists>s. snd (Rectangle_repr m fs self) = Inr s"
    if "int_value lv = Some l" and "int_value wv = Some w"
      and "m = 0 \<or> l < 10 ^ max 640 m \<and> w < 10 ^ max 640 m"
    using constructed_repr_within_limit [OF assms that, of fs] by auto
  ultimately show ?thesis
    using gen_next_no_raise [OF attrs] next_n_no_raise [OF attrs]
      constructed_repr_outcomes [OF assms, of m fs]
    by blast
qed

theorem Rectangle_methods_never_raise_witness:
  "snd (traverse [(''length'', PyInt 5), (''width'', PyInt 3)] Created)
     = Inr [[(''length'', PyInt 5)], [(''width'', PyInt 3)]]
   \<and> snd (snd (next_n 3 [(''length'', PyInt 5), (''width'', PyInt 3)] Created))
     = [Yielded [(''length'', PyInt 5)], Yielded [(''width'', PyInt 3)], StopIteration]
   \<and> (\<exists>s. snd (Rectangle_repr 4300 (\<lambda>f. []) [(''length'', PyInt 5), (''width'', PyInt 3)])
          = Inr s)"
proof -
  let ?r = "[(''length'', PyInt 5), (''width'', PyInt 3)]"
  let ?k = "max 640 (4300::nat)"
  have made: "Rectangle (PyInt 5) (PyInt 3) = Inr ?r"
    by (simp add: Rectangle_Inr_iff)
  have five: "(5::int) < 10 ^ ?k" and three: "(3::int) < 10 ^ ?k"
    by (rule small_within_limit, simp)+
  have l: "int_value (PyInt 5) = Some 5" and w: "int_value (PyInt 3) = Some 3"
    by simp_all
  from five three have fits: "(4300::nat) = 0 \<or> (5::int) < 10 ^ ?k \<and> (3::int) < 10 ^ ?k"
    by (intro disjI2 conjI)
  from l w fits
  have within: "int_value (PyInt 5) = Some 5 \<and> int_value (PyInt 3) = Some 3
        \<and> ((4300::nat) = 0 \<or> (5::int) < 10 ^ ?k \<and> (3::int) < 10 ^ ?k)"
    by (intro conjI)
  have "snd (traverse ?r Created) = Inr [[(''length'', PyInt 5)], [(''width'', PyInt 3)]]"
    by (simp add: traverse_Created getattr_def)
  moreover have "snd (snd (next_n 3 ?r Created))
     = [Yielded [(''length'', PyInt 5)], Yielded [(''width'', PyInt 3)], StopIteration]"
    by (simp add: numeral_3_eq_3 getattr_def)
  ultimately show ?thesis
    using within
      Rectangle_methods_never_raise [OF made, where g = Created and e = "TypeError []"
        and n = 3 and m = 4300 and fs = "\<lambda>f. []" and l = 5 and w = 3]
    by blast
qed

text \<open>
  The claim as first stated, that \<^verbatim>\<open>__repr__\<close> never raises on a constructed object,
  fails: under the default limit \<^verbatim>\<open>Rectangle(1, 10 ** 4300)\<close> is constructed and
  \<^verbatim>\<open>__repr__\<close> raises a \<^verbatim>\<open>ValueError\<close> when it comes to the width.
\<close>

theorem Rectangle_methods_never_raise_counterexample:
  "Rectangle (PyInt 1) (PyInt (10 ^ 4300))
     = Inr [(''length'', PyInt 1), (''width'', PyInt (10 ^ 4300))]
   \<and> snd (Rectangle_repr 4300 (\<lambda>f. []) [(''length'', PyInt 1), (''width'', PyInt (10 ^ 4300))])
     = Inl (ValueError ''Exceeds the limit (4300 digits) for integer string conversion; use sys.set_int_max_str_digits() to increase the limit'')"
proof -
  have limit: "(640::nat) \<le> 4300" by simp
  have big: "(10::int) ^ 4300 \<le> 10 ^ 4300" by (rule order_refl)
  from repr_over_limit_width [OF limit big, of "\<lambda>f. []"] show ?thesis
    by (simp only: digit_limit_error_4300)
qed

text \<open>
  Claim C10. \<^verbatim>\<open>True\<close> is an instance of \<^verbatim>\<open>int\<close> standing for 1, so
  \<^verbatim>\<open>Rectangle(True, w)\<close> with an integer \<open>w > 0\<close> passes the type check and returns an
  object whose \<^verbatim>\<open>length\<close> is \<^verbatim>\<open>True\<close>; it does not raise the \<^verbatim>\<open>TypeError\<close>.
\<close>

theorem Rectangle_accepts_True:
  assumes "0 < w"
  shows "isinstance_int (PyBool True)
         \<and> int_value (PyBool True) = Some 1
         \<and> Rectangle (PyBool True) (PyInt w)
             = Inr [(''length'', PyBool True), (''width'', PyInt w)]
         \<and> Rectangle (PyBool True) (PyInt w)
             \<noteq> Inl (TypeError ''Length and width must be integers.'')"
proof -
  have "Rectangle (PyBool True) (PyInt w) = Inr [(''length'', PyBool True), (''width'', PyInt w)]"
    using assms by (simp add: Rectangle_Inr_iff)
  then show ?thesis by simp
qed

theorem Rectangle_accepts_True_witness:
  "Rectangle (PyBool True) (PyInt 2) = Inr [(''length'', PyBool True), (''width'', PyInt 2)]"
proof -
  have "(0::int) < 2" by simp
  from Rectangle_accepts_True [OF this] show ?thesis by simp
qed

end
